theory Spec2Isabelle
  imports Main
begin

section \<open>Data model\<close>

text \<open>
  The persisted documents of the three collections. The schemas themselves
  (\<^verbatim>\<open>models/Book\<close>, \<^verbatim>\<open>models/Category\<close>, \<^verbatim>\<open>models/Booking\<close>) are required by the
  controllers but are not part of the sources at hand.

  Modelled from the spec: the record shapes
  \<^verbatim>\<open>Book{_id, title, author, ISBN, createdAt, updatedAt}\<close>,
  \<^verbatim>\<open>Category{_id, category_name, book_id}\<close> and
  \<^verbatim>\<open>Booking{_id, user_id, book_id, quantity, status, createdAt, updatedAt}\<close>.
  An object identifier is a natural number; a field that a JavaScript caller may leave
  \<^verbatim>\<open>undefined\<close> is an option. Field names carry the collection as a prefix
  (\<open>b_\<close>, \<open>c_\<close>, \<open>bk_\<close>), \<open>_id\<close> becomes \<open>\<dots>_id\<close>.
\<close>

type_synonym oid = nat

record book =
  b_id :: oid
  b_title :: "string option"
  b_author :: "string option"
  b_ISBN :: "string option"
  b_createdAt :: nat
  b_updatedAt :: nat

record category =
  c_id :: oid
  c_category_name :: string
  c_book_id :: oid

record booking =
  bk_id :: oid
  bk_user_id :: oid
  bk_book_id :: oid
  bk_quantity :: "int option"
  bk_status :: "string option"
  bk_createdAt :: nat
  bk_updatedAt :: nat

text \<open>
  A book read with the projection \<^verbatim>\<open>{createdAt: false, updatedAt: false}\<close>, and the
  profile that \<^verbatim>\<open>fetchBookProfile\<close> builds from it by adding \<^verbatim>\<open>categories\<close>.
\<close>

record book_fields =
  f_id :: oid
  f_title :: "string option"
  f_author :: "string option"
  f_ISBN :: "string option"

record profile = book_fields +
  categories :: "string list"

subsection \<open>The datastore\<close>

text \<open>
  The state of the datastore: the three collections in insertion order, the clock that
  stamps \<^verbatim>\<open>createdAt\<close> and \<^verbatim>\<open>updatedAt\<close>, and the sequence of datastore operations
  issued so far. The datastore is reliable: an operation never rejects, so the
  \<^verbatim>\<open>.catch\<close> handlers of the controllers are reached only by exceptions thrown in
  their own callbacks.
\<close>

datatype model = MBook | MCategory | MBooking

datatype db_op = FindById | FindOne | Find | Distinct | Create | Save

type_synonym db_call = "model \<times> db_op"

record db =
  Book :: "book list"
  Category :: "category list"
  Booking :: "booking list"
  clock :: nat
  calls :: "db_call list"

definition issue :: "model \<Rightarrow> db_op \<Rightarrow> db \<Rightarrow> db" where
  "issue m operation s = s\<lparr>calls := calls s @ [(m, operation)]\<rparr>"

definition fresh :: "oid list \<Rightarrow> oid" where
  "fresh ids = Suc (fold max ids 0)"

text \<open>The write of \<^verbatim>\<open>updateOne\<close>: the first document that matches is replaced.\<close>

fun updateOne :: "('a \<Rightarrow> bool) \<Rightarrow> 'a \<Rightarrow> 'a list \<Rightarrow> 'a list" where
  "updateOne matches d [] = []"
| "updateOne matches d (x # xs) =
     (if matches x then d # xs else x # updateOne matches d xs)"

text \<open>\<^verbatim>\<open>Book.findById(id)\<close>: the document with this identifier, or \<^verbatim>\<open>null\<close>.\<close>

definition Book_findById :: "oid \<Rightarrow> db \<Rightarrow> book option \<times> db" where
  "Book_findById i s = (find (\<lambda>b. b_id b = i) (Book s), issue MBook FindById s)"

text \<open>\<^verbatim>\<open>Book.findById(id, {createdAt: false, updatedAt: false})\<close>.\<close>

definition without_timestamps :: "book \<Rightarrow> book_fields" where
  "without_timestamps b =
     \<lparr>f_id = b_id b, f_title = b_title b, f_author = b_author b, f_ISBN = b_ISBN b\<rparr>"

definition Book_findById_projected :: "oid \<Rightarrow> db \<Rightarrow> book_fields option \<times> db" where
  "Book_findById_projected i s =
     (map_option without_timestamps (find (\<lambda>b. b_id b = i) (Book s)),
      issue MBook FindById s)"

text \<open>\<^verbatim>\<open>Book.findOne({ISBN: ISBN})\<close>: the first document with this ISBN, or \<^verbatim>\<open>null\<close>.\<close>

definition Book_findOne_ISBN :: "string option \<Rightarrow> db \<Rightarrow> book option \<times> db" where
  "Book_findOne_ISBN x s = (find (\<lambda>b. b_ISBN b = x) (Book s), issue MBook FindOne s)"


text \<open>\<^verbatim>\<open>Book.create({title, author, ISBN})\<close>.\<close>

definition Book_create ::
  "string option \<Rightarrow> string option \<Rightarrow> string option \<Rightarrow> db \<Rightarrow> book \<times> db" where
  "Book_create t a i s =
     (let newBook = \<lparr>b_id = fresh (map b_id (Book s)), b_title = t, b_author = a,
                     b_ISBN = i, b_createdAt = clock s, b_updatedAt = clock s\<rparr>
      in (newBook, (issue MBook Create s)\<lparr>Book := Book s @ [newBook], clock := Suc (clock s)\<rparr>))"

text \<open>
  \<^verbatim>\<open>doc.save()\<close> on a document read from the collection: an \<^verbatim>\<open>updateOne\<close> on its
  \<^verbatim>\<open>_id\<close>.

  Modelled from the spec: \<^verbatim>\<open>save(record) \<rightarrow> record\<close> persists the in-place mutations;
  the schema (not in the sources at hand) adds no validation of its own.
\<close>

definition Book_save :: "book \<Rightarrow> db \<Rightarrow> book \<times> db" where
  "Book_save d s =
     (let saved = d\<lparr>b_updatedAt := clock s\<rparr>
      in (saved, (issue MBook Save s)
                   \<lparr>Book := updateOne (\<lambda>b. b_id b = b_id d) saved (Book s),
                    clock := Suc (clock s)\<rparr>))"

text \<open>\<^verbatim>\<open>Category.distinct('category_name', {book_id: id})\<close>.\<close>

definition Category_distinct_category_name :: "oid \<Rightarrow> db \<Rightarrow> string list \<times> db" where
  "Category_distinct_category_name i s =
     (remdups (map c_category_name (filter (\<lambda>c. c_book_id c = i) (Category s))),
      issue MCategory Distinct s)"

text \<open>\<^verbatim>\<open>Booking.find(filter, {}, {sort: {updatedAt: -1}})\<close>.\<close>

definition Booking_find :: "(booking \<Rightarrow> bool) \<Rightarrow> db \<Rightarrow> booking list \<times> db" where
  "Booking_find matches s =
     (sort_key (\<lambda>b. - int (bk_updatedAt b)) (filter matches (Booking s)),
      issue MBooking Find s)"

definition Booking_findById :: "oid \<Rightarrow> db \<Rightarrow> booking option \<times> db" where
  "Booking_findById i s = (find (\<lambda>b. bk_id b = i) (Booking s), issue MBooking FindById s)"

text \<open>
  \<^verbatim>\<open>Booking.create({user_id, book_id, quantity, status})\<close>.

  Modelled from the spec: \<^verbatim>\<open>create(collection, fields) \<rightarrow> record\<close>, with no validation
  by the schema.
\<close>

definition Booking_create ::
  "oid \<Rightarrow> oid \<Rightarrow> int option \<Rightarrow> string option \<Rightarrow> db \<Rightarrow> booking \<times> db" where
  "Booking_create u b q st s =
     (let newBooking = \<lparr>bk_id = fresh (map bk_id (Booking s)), bk_user_id = u,
                        bk_book_id = b, bk_quantity = q, bk_status = st,
                        bk_createdAt = clock s, bk_updatedAt = clock s\<rparr>
      in (newBooking,
          (issue MBooking Create s)\<lparr>Booking := Booking s @ [newBooking],
                                    clock := Suc (clock s)\<rparr>))"

definition Booking_save :: "booking \<Rightarrow> db \<Rightarrow> booking \<times> db" where
  "Booking_save d s =
     (let saved = d\<lparr>bk_updatedAt := clock s\<rparr>
      in (saved, (issue MBooking Save s)
                   \<lparr>Booking := updateOne (\<lambda>b. bk_id b = bk_id d) saved (Booking s),
                    clock := Suc (clock s)\<rparr>))"

subsection \<open>Requests and outcomes\<close>

text \<open>
  The request a controller receives after authentication and validation:
  \<^verbatim>\<open>req.user\<close>, \<^verbatim>\<open>req.params\<close>, \<^verbatim>\<open>req.query\<close> and \<^verbatim>\<open>req.body\<close>. A body or query field that
  the client did not send is \<open>None\<close>.
\<close>

record user_ctx =
  u_id :: oid
  isModerator :: bool

record req_params =
  p_id :: oid
  p_status :: string

record req_query =
  search :: "string option"

record req_body =
  title :: "string option"
  author :: "string option"
  ISBN :: "string option"
  quantity :: "int option"
  status :: "string option"

record request =
  user :: user_ctx
  params :: req_params
  query :: req_query
  body :: req_body

text \<open>
  What a controller does with the request: it answers with \<^verbatim>\<open>res.status(c).json(\<dots>)\<close>,
  or hands an error to \<^verbatim>\<open>next\<close>, or an exception leaves it with neither called
  (\<open>Uncaught\<close>: a synchronous throw, or a rejected promise that has no handler).
  \<open>HttpError c m\<close> is \<^verbatim>\<open>createError(c, m)\<close>; \<open>TypeError\<close> is what reading or writing a
  property of \<^verbatim>\<open>null\<close> or \<^verbatim>\<open>undefined\<close> throws.
\<close>

datatype error = HttpError nat string | TypeError

datatype payload =
  PBook oid
| PBooks "profile list"
| PBooking oid
| PBookings "booking list"

datatype outcome = Res nat string payload | Next error | Uncaught error

definition Forbidden :: "error \<Rightarrow> bool" where
  "Forbidden e = (case e of HttpError c m \<Rightarrow> c = 403 | TypeError \<Rightarrow> False)"

definition NotFound :: "error \<Rightarrow> bool" where
  "NotFound e = (case e of HttpError c m \<Rightarrow> c = 404 | TypeError \<Rightarrow> False)"

definition Conflict :: "error \<Rightarrow> bool" where
  "Conflict e = (case e of HttpError c m \<Rightarrow> c = 409 | TypeError \<Rightarrow> False)"

text \<open>
  A controller fails with an error of some kind when it hands such an error to
  \<^verbatim>\<open>next\<close>: only then does the caller receive the tagged failure.
\<close>

definition fails_with :: "(error \<Rightarrow> bool) \<Rightarrow> outcome \<Rightarrow> bool" where
  "fails_with kind out =
     (case out of Next e \<Rightarrow> kind e | Res c m p \<Rightarrow> False | Uncaught e \<Rightarrow> False)"

section \<open>BookController\<close>

definition fetchBookProfile :: "oid \<Rightarrow> db \<Rightarrow> (error + profile) \<times> db" where
  "fetchBookProfile book_id s =
     (let (found, s1) = Book_findById_projected book_id s in
      case found of
        None \<Rightarrow> (Inl (HttpError 404 ''book not found''), s1)
      | Some book \<Rightarrow>
          (let (cats, s2) = Category_distinct_category_name (f_id book) s1 in
           (Inr \<lparr>f_id = f_id book, f_title = f_title book, f_author = f_author book,
                 f_ISBN = f_ISBN book, categories = cats\<rparr>, s2)))"

text \<open>
  \<^verbatim>\<open>getBookProfiles\<close>: the \<^verbatim>\<open>forEach\<close> calls \<^verbatim>\<open>fetchBookProfile\<close> on every identifier
  before any callback runs, so every \<^verbatim>\<open>Book.findById\<close> is issued first, in the order of
  the identifiers. The callbacks of \<^verbatim>\<open>fetchBookProfile\<close> then run, each one rejecting
  with the 404 error or issuing its \<^verbatim>\<open>Category.distinct\<close>, and \<^verbatim>\<open>Promise.all\<close> joins
  them: the list of profiles in the order of the identifiers, or the first failure.
\<close>

definition fetchBookProfile_then :: "book_fields option \<Rightarrow> db \<Rightarrow> (error + profile) \<times> db" where
  "fetchBookProfile_then found s =
     (case found of
        None \<Rightarrow> (Inl (HttpError 404 ''book not found''), s)
      | Some book \<Rightarrow>
          (let (cats, s1) = Category_distinct_category_name (f_id book) s in
           (Inr \<lparr>f_id = f_id book, f_title = f_title book, f_author = f_author book,
                 f_ISBN = f_ISBN book, categories = cats\<rparr>, s1)))"

fun forEach_fetch :: "oid list \<Rightarrow> db \<Rightarrow> book_fields option list \<times> db" where
  "forEach_fetch [] s = ([], s)"
| "forEach_fetch (entry # book_ids) s =
     (let (found, s1) = Book_findById_projected entry s;
          (founds, s2) = forEach_fetch book_ids s1
      in (found # founds, s2))"

fun Promise_all :: "book_fields option list \<Rightarrow> db \<Rightarrow> (error + profile list) \<times> db" where
  "Promise_all [] s = (Inr [], s)"
| "Promise_all (found # founds) s =
     (let (r, s1) = fetchBookProfile_then found s;
          (rs, s2) = Promise_all founds s1
      in (case r of
            Inl err \<Rightarrow> Inl err
          | Inr b \<Rightarrow> (case rs of Inl err \<Rightarrow> Inl err | Inr bs \<Rightarrow> Inr (b # bs)),
          s2))"

definition getBookProfiles :: "oid list \<Rightarrow> db \<Rightarrow> (error + profile list) \<times> db" where
  "getBookProfiles book_ids s =
     (let (founds, s1) = forEach_fetch book_ids s in Promise_all founds s1)"

definition addBook :: "request \<Rightarrow> db \<Rightarrow> outcome \<times> db" where
  "addBook req s =
     (if \<not> isModerator (user req)
      then (Next (HttpError 403 ''user not authorized for this action''), s)
      else
        (let (found, s1) = Book_findOne_ISBN (ISBN (body req)) s in
         case found of
           Some book \<Rightarrow> (Next (HttpError 409 ''book already in collection''), s1)
         | None \<Rightarrow>
             (let (newBook, s2) =
                    Book_create (title (body req)) (author (body req)) (ISBN (body req)) s1
              in (Res 200 ''book successfully added'' (PBook (b_id newBook)), s2))))"

text \<open>
  \<^verbatim>\<open>updateBook\<close>: the callback writes \<^verbatim>\<open>targetBook.title\<close> without looking at
  \<^verbatim>\<open>targetBook\<close>; on \<^verbatim>\<open>null\<close> the assignment throws, and the \<^verbatim>\<open>.catch\<close> that follows the
  \<^verbatim>\<open>.then\<close> hands the exception to \<^verbatim>\<open>next\<close>.
\<close>

definition updateBook :: "request \<Rightarrow> db \<Rightarrow> outcome \<times> db" where
  "updateBook req s =
     (let targetBookID = p_id (params req);
          (found, s1) = Book_findById targetBookID s in
      case found of
        None \<Rightarrow> (Next TypeError, s1)
      | Some targetBook \<Rightarrow>
          (let (updatedBook, s2) =
                 Book_save (targetBook\<lparr>b_title := title (body req),
                                        b_author := author (body req)\<rparr>) s1
           in (Res 200 ''book updated successfully'' (PBook (b_id updatedBook)), s2)))"


section \<open>BookingController\<close>

definition getAllBookings :: "request \<Rightarrow> db \<Rightarrow> outcome \<times> db" where
  "getAllBookings req s =
     (if \<not> isModerator (user req)
      then (Next (HttpError 403 ''user not authorized for this action''), s)
      else
        (let (bookings, s1) = Booking_find (\<lambda>b. True) s
         in (Res 200 ''succesfully retrieved bookings'' (PBookings bookings), s1)))"

definition getBookingsWithStatus :: "request \<Rightarrow> db \<Rightarrow> outcome \<times> db" where
  "getBookingsWithStatus req s =
     (if \<not> isModerator (user req)
      then (Next (HttpError 403 ''user not authorized for this action''), s)
      else
        (let (bookings, s1) =
               Booking_find (\<lambda>b. bk_status b = Some (p_status (params req))) s
         in (Res 200 ''succesfully retrieved bookings'' (PBookings bookings), s1)))"

definition getBookingsByUser :: "request \<Rightarrow> db \<Rightarrow> outcome \<times> db" where
  "getBookingsByUser req s =
     (let (bookings, s1) = Booking_find (\<lambda>b. bk_user_id b = u_id (user req)) s
      in (Res 200 ''succesfully retrieved user bookings'' (PBookings bookings), s1))"

definition getAllBookingsForBook :: "request \<Rightarrow> db \<Rightarrow> outcome \<times> db" where
  "getAllBookingsForBook req s =
     (if \<not> isModerator (user req)
      then (Next (HttpError 403 ''user not authorized for this action''), s)
      else
        (let targetBookID = p_id (params req);
             (found, s1) = Book_findById targetBookID s in
         case found of
           None \<Rightarrow> (Next (HttpError 404 ''book does not exist''), s1)
         | Some book \<Rightarrow>
             (let (bookings, s2) = Booking_find (\<lambda>b. bk_book_id b = targetBookID) s1
              in (Res 200 ''succesfully retrieved user bookings for book''
                    (PBookings bookings), s2))))"

definition addBooking :: "request \<Rightarrow> db \<Rightarrow> outcome \<times> db" where
  "addBooking req s =
     (let (newBooking, s1) =
            Booking_create (u_id (user req)) (p_id (params req)) (quantity (body req))
              (Some ''pending'') s
      in (Res 200 ''successfully completed booking'' (PBooking (bk_id newBooking)), s1))"

text \<open>
  \<^verbatim>\<open>updateBooking\<close>: the callback writes \<^verbatim>\<open>booking.quantity\<close> without looking at
  \<^verbatim>\<open>booking\<close>. Here the \<^verbatim>\<open>.catch\<close> precedes the \<^verbatim>\<open>.then\<close>, so the exception thrown on
  \<^verbatim>\<open>null\<close> rejects a promise that nothing handles: neither \<^verbatim>\<open>next\<close> nor \<^verbatim>\<open>res\<close> is
  called.
\<close>

definition updateBooking :: "request \<Rightarrow> db \<Rightarrow> outcome \<times> db" where
  "updateBooking req s =
     (let targetBookingID = p_id (params req);
          (found, s1) = Booking_findById targetBookingID s in
      case found of
        None \<Rightarrow> (Uncaught TypeError, s1)
      | Some found_booking \<Rightarrow>
          (let (updatedBooking, s2) =
                 Booking_save (found_booking\<lparr>bk_quantity := quantity (body req),
                                             bk_status := status (body req)\<rparr>) s1
           in (Res 200 ''successfully updated booking'' (PBooking (bk_id updatedBooking)),
               s2)))"

section \<open>A sample datastore and request\<close>

text \<open>
  Two books, four membership records (one of them twice) and one booking; a request by
  a caller without the moderator capability whose body carries every field and whose
  query is a single space; the same request by a moderator, for an identifier that no
  document has, and with the empty query; and a text index that matches nothing.
\<close>

definition example_db :: db where
  "example_db =
     \<lparr>Book = [\<lparr>b_id = 1, b_title = Some ''Emma'', b_author = Some ''Austen'',
               b_ISBN = Some ''A1'', b_createdAt = 0, b_updatedAt = 0\<rparr>,
              \<lparr>b_id = 2, b_title = Some ''Ulysses'', b_author = Some ''Joyce'',
               b_ISBN = Some ''A2'', b_createdAt = 1, b_updatedAt = 1\<rparr>],
      Category = [\<lparr>c_id = 1, c_category_name = ''Fiction'', c_book_id = 1\<rparr>,
                  \<lparr>c_id = 2, c_category_name = ''Classic'', c_book_id = 1\<rparr>,
                  \<lparr>c_id = 3, c_category_name = ''Fiction'', c_book_id = 1\<rparr>,
                  \<lparr>c_id = 4, c_category_name = ''Modernist'', c_book_id = 2\<rparr>],
      Booking = [\<lparr>bk_id = 1, bk_user_id = 4, bk_book_id = 1, bk_quantity = Some 2,
                  bk_status = Some ''rejected'', bk_createdAt = 2, bk_updatedAt = 2\<rparr>],
      clock = 3,
      calls = []\<rparr>"

definition example_request :: request where
  "example_request =
     \<lparr>user = \<lparr>u_id = 7, isModerator = False\<rparr>,
      params = \<lparr>p_id = 1, p_status = ''pending''\<rparr>,
      query = \<lparr>search = Some '' ''\<rparr>,
      body = \<lparr>title = Some ''Persuasion'', author = None, ISBN = Some ''A2'',
              quantity = Some 5, status = Some ''approved''\<rparr>\<rparr>"


definition moderator_request :: request where
  "moderator_request = example_request\<lparr>user := \<lparr>u_id = 7, isModerator = True\<rparr>\<rparr>"

definition missing_request :: request where
  "missing_request = example_request\<lparr>params := \<lparr>p_id = 9, p_status = ''pending''\<rparr>\<rparr>"


section \<open>Lookups, single-document writes and fresh identifiers\<close>

lemma find_of_member:
  "i \<in> f ` set xs \<Longrightarrow> \<exists>x \<in> set xs. f x = i \<and> find (\<lambda>y. f y = i) xs = Some x"
  by (induction xs) auto

lemma find_absent: "i \<notin> f ` set xs \<Longrightarrow> find (\<lambda>y. f y = i) xs = None"
  by (induction xs) auto

lemma find_updateOne:
  "find (\<lambda>y. f y = i) xs = Some x \<Longrightarrow> f d = i \<Longrightarrow>
   find (\<lambda>y. f y = i) (updateOne (\<lambda>y. f y = i) d xs) = Some d"
  by (induction xs) (auto split: if_splits)

lemma map_updateOne:
  "find (\<lambda>y. f y = i) xs = Some x \<Longrightarrow> g d = g x \<Longrightarrow>
   map g (updateOne (\<lambda>y. f y = i) d xs) = map g xs"
  by (induction xs) (auto split: if_splits)

lemma fold_max_lower: "(m::nat) \<le> fold max ids m"
proof (induction ids arbitrary: m)
  case Nil
  show ?case by simp
next
  case (Cons a ids)
  have "m \<le> max a m" by simp
  also have "\<dots> \<le> fold max ids (max a m)" by (rule Cons.IH)
  finally show ?case by simp
qed

lemma fold_max_upper: "i \<in> set ids \<Longrightarrow> i \<le> fold max ids (m::nat)"
proof (induction ids arbitrary: m)
  case Nil
  then show ?case by simp
next
  case (Cons a ids)
  show ?case
  proof (cases "i = a")
    case True
    have "a \<le> max a m" by simp
    also have "\<dots> \<le> fold max ids (max a m)" by (rule fold_max_lower)
    finally show ?thesis using True by simp
  next
    case False
    with Cons.prems have "i \<in> set ids" by simp
    then have "i \<le> fold max ids (max a m)" by (rule Cons.IH)
    then show ?thesis by simp
  qed
qed

lemma fresh_above: "i \<in> set ids \<Longrightarrow> i < fresh ids"
  using fold_max_upper [of i ids 0] by (simp add: fresh_def)

lemma fresh_is_new: "fresh (map f xs) \<notin> f ` set xs"
proof
  assume "fresh (map f xs) \<in> f ` set xs"
  then have "fresh (map f xs) \<in> set (map f xs)" by simp
  then have "fresh (map f xs) < fresh (map f xs)" by (rule fresh_above)
  then show False by simp
qed

section \<open>What the writing controllers compute\<close>

lemma addBooking_run:
  "addBooking req s =
     (Res 200 ''successfully completed booking'' (PBooking (fresh (map bk_id (Booking s)))),
      snd (Booking_create (u_id (user req)) (p_id (params req)) (quantity (body req))
             (Some ''pending'') s))"
  by (simp add: addBooking_def Booking_create_def Let_def)

lemma Booking_create_appends:
  "Booking (snd (Booking_create u b q st s))
     = Booking s @ [\<lparr>bk_id = fresh (map bk_id (Booking s)), bk_user_id = u,
                       bk_book_id = b, bk_quantity = q, bk_status = st,
                       bk_createdAt = clock s, bk_updatedAt = clock s\<rparr>]"
  by (simp add: Booking_create_def Let_def issue_def)

lemma getBookingsByUser_lists:
  "fst (getBookingsByUser req s)
     = Res 200 ''succesfully retrieved user bookings''
         (PBookings (fst (Booking_find (\<lambda>b. bk_user_id b = u_id (user req)) s)))"
  by (simp add: getBookingsByUser_def Booking_find_def)

lemma Booking_find_set: "set (fst (Booking_find matches s)) = {b \<in> set (Booking s). matches b}"
  by (simp add: Booking_find_def)

lemma Booking_save_collection:
  "Booking (snd (Booking_save d s))
     = updateOne (\<lambda>b. bk_id b = bk_id d) (d\<lparr>bk_updatedAt := clock s\<rparr>) (Booking s)"
  by (simp add: Booking_save_def Let_def issue_def)

lemma updateBooking_run:
  assumes "find (\<lambda>b. bk_id b = p_id (params req)) (Booking s) = Some old"
  shows "updateBooking req s =
           (Res 200 ''successfully updated booking'' (PBooking (bk_id old)),
            snd (Booking_save (old\<lparr>bk_quantity := quantity (body req),
                                   bk_status := status (body req)\<rparr>)
                   (issue MBooking FindById s)))"
  using assms by (simp add: updateBooking_def Booking_findById_def Booking_save_def Let_def)

lemma updateBooking_absent:
  assumes "p_id (params req) \<notin> bk_id ` set (Booking s)"
  shows "updateBooking req s = (Uncaught TypeError, issue MBooking FindById s)"
  using find_absent [OF assms] by (simp add: updateBooking_def Booking_findById_def)

lemma Book_save_collection:
  "Book (snd (Book_save d s))
     = updateOne (\<lambda>b. b_id b = b_id d) (d\<lparr>b_updatedAt := clock s\<rparr>) (Book s)"
  by (simp add: Book_save_def Let_def issue_def)

lemma updateBook_run:
  assumes "find (\<lambda>b. b_id b = p_id (params req)) (Book s) = Some old"
  shows "updateBook req s =
           (Res 200 ''book updated successfully'' (PBook (b_id old)),
            snd (Book_save (old\<lparr>b_title := title (body req), b_author := author (body req)\<rparr>)
                   (issue MBook FindById s)))"
  using assms by (simp add: updateBook_def Book_findById_def Book_save_def Let_def)

lemma updateBook_absent:
  assumes "p_id (params req) \<notin> b_id ` set (Book s)"
  shows "updateBook req s = (Next TypeError, issue MBook FindById s)"
  using find_absent [OF assms] by (simp add: updateBook_def Book_findById_def)

section \<open>The fan-out of profile lookups\<close>

text \<open>
  \<^verbatim>\<open>fetchBookProfile\<close> is its lookup followed by its callback, the two steps that
  \<^verbatim>\<open>getBookProfiles\<close> runs for all identifiers in turn; on the sample datastore both
  lookups are issued before the first \<^verbatim>\<open>Category.distinct\<close>.
\<close>

lemma fetchBookProfile_lookup_then:
  "fetchBookProfile i s =
     (let (found, s1) = Book_findById_projected i s in fetchBookProfile_then found s1)"
  by (simp add: fetchBookProfile_def fetchBookProfile_then_def Book_findById_projected_def)

lemma getBookProfiles_sample_calls:
  "calls (snd (getBookProfiles [1, 2] example_db))
     = [(MBook, FindById), (MBook, FindById), (MCategory, Distinct), (MCategory, Distinct)]"
  by (simp add: getBookProfiles_def fetchBookProfile_then_def Book_findById_projected_def
      Category_distinct_category_name_def issue_def example_db_def)

lemma getBookProfiles_sample_categories:
  "map_sum id (map categories) (fst (getBookProfiles [1, 2] example_db))
     = Inr [[''Classic'', ''Fiction''], [''Modernist'']]"
  by (simp add: getBookProfiles_def fetchBookProfile_then_def Book_findById_projected_def
      Category_distinct_category_name_def issue_def example_db_def without_timestamps_def)

section \<open>Book profiles\<close>

text \<open>
  C1. For an identifier \<open>i\<close> of a book in the collection, \<^verbatim>\<open>fetchBookProfile\<close> resolves
  with a profile that carries the identifier, title, author and ISBN of that book (the
  profile type has no timestamp fields) and whose \<^verbatim>\<open>categories\<close> are, without repetition,
  exactly the \<^verbatim>\<open>category_name\<close> values of the membership records with \<^verbatim>\<open>book_id\<close> \<open>i\<close>.
\<close>

theorem fetchBookProfile_categories:
  assumes "i \<in> b_id ` set (Book s)"
  shows "\<exists>bk \<in> set (Book s). \<exists>p.
           fst (fetchBookProfile i s) = Inr p
         \<and> b_id bk = i \<and> f_id p = i
         \<and> f_title p = b_title bk \<and> f_author p = b_author bk \<and> f_ISBN p = b_ISBN bk
         \<and> set (categories p) = c_category_name ` {c \<in> set (Category s). c_book_id c = i}
         \<and> distinct (categories p)"
proof -
  from find_of_member [OF assms] obtain bk where
    bk: "bk \<in> set (Book s)" "b_id bk = i" "find (\<lambda>y. b_id y = i) (Book s) = Some bk"
    by blast
  have "\<exists>p. fst (fetchBookProfile i s) = Inr p
         \<and> b_id bk = i \<and> f_id p = i
         \<and> f_title p = b_title bk \<and> f_author p = b_author bk \<and> f_ISBN p = b_ISBN bk
         \<and> set (categories p) = c_category_name ` {c \<in> set (Category s). c_book_id c = i}
         \<and> distinct (categories p)"
    using bk
    by (simp add: fetchBookProfile_def Book_findById_projected_def without_timestamps_def
        Category_distinct_category_name_def issue_def)
  with bk(1) show ?thesis by blast
qed

theorem fetchBookProfile_categories_witness:
  "1 \<in> b_id ` set (Book example_db)
   \<and> (\<exists>p. fst (fetchBookProfile 1 example_db) = Inr p \<and> f_ISBN p = Some ''A1''
          \<and> set (categories p) = {''Fiction'', ''Classic''} \<and> distinct (categories p))"
proof -
  have h: "1 \<in> b_id ` set (Book example_db)"
    by (simp add: example_db_def)
  have cs: "c_category_name ` {c \<in> set (Category example_db). c_book_id c = 1}
            = {''Fiction'', ''Classic''}"
  proof -
    have "c_category_name ` {c \<in> set (Category example_db). c_book_id c = 1}
          = set (map c_category_name (filter (\<lambda>c. c_book_id c = 1) (Category example_db)))"
      by auto
    also have "\<dots> = {''Fiction'', ''Classic''}"
      by (auto simp add: example_db_def)
    finally show ?thesis .
  qed
  from fetchBookProfile_categories [OF h] obtain bk p where
    bk: "bk \<in> set (Book example_db)" "b_id bk = 1" and
    p: "fst (fetchBookProfile 1 example_db) = Inr p" "f_ISBN p = b_ISBN bk"
       "set (categories p) = c_category_name ` {c \<in> set (Category example_db). c_book_id c = 1}"
       "distinct (categories p)"
    by blast
  from bk have "b_ISBN bk = Some ''A1''"
    by (auto simp add: example_db_def)
  with p cs h show ?thesis by simp
qed

section \<open>Creating and updating books\<close>

text \<open>
  C4. When the caller is a moderator and the collection holds a book with the ISBN \<open>x\<close>
  of the request, \<^verbatim>\<open>addBook\<close> fails with the 409 error and the three collections are as
  they were: no second record with this ISBN is created.
\<close>

theorem addBook_duplicate_ISBN_conflict:
  assumes "isModerator (user req)"
    and "ISBN (body req) = Some x"
    and "Some x \<in> b_ISBN ` set (Book s)"
  shows "fails_with Conflict (fst (addBook req s))
       \<and> Book (snd (addBook req s)) = Book s
       \<and> Category (snd (addBook req s)) = Category s
       \<and> Booking (snd (addBook req s)) = Booking s"
proof -
  from find_of_member [OF assms(3)] obtain b where
    "find (\<lambda>y. b_ISBN y = Some x) (Book s) = Some b"
    by blast
  with assms(1,2) show ?thesis
    by (simp add: addBook_def Book_findOne_ISBN_def issue_def fails_with_def Conflict_def)
qed

theorem addBook_duplicate_ISBN_witness:
  "isModerator (user moderator_request)
   \<and> ISBN (body moderator_request) = Some ''A2''
   \<and> Some ''A2'' \<in> b_ISBN ` set (Book example_db)
   \<and> fails_with Conflict (fst (addBook moderator_request example_db))
   \<and> length (Book (snd (addBook moderator_request example_db))) = 2"
proof -
  have h1: "isModerator (user moderator_request)"
    by (simp add: moderator_request_def)
  have h2: "ISBN (body moderator_request) = Some ''A2''"
    by (simp add: moderator_request_def example_request_def)
  have h3: "Some ''A2'' \<in> b_ISBN ` set (Book example_db)"
    by (simp add: example_db_def)
  have "length (Book example_db) = 2"
    by (simp add: example_db_def)
  with h1 h2 h3 addBook_duplicate_ISBN_conflict [OF h1 h2 h3] show ?thesis
    by simp
qed

text \<open>
  C3. \<^verbatim>\<open>updateBook\<close> on an identifier that no book has: the sample request for
  identifier 9. The book collection is as it was, but the error handed to \<^verbatim>\<open>next\<close> is
  the \<open>TypeError\<close> of the assignment to \<^verbatim>\<open>null\<close>, not the 404 error that the
  controller's header documents and that \<^verbatim>\<open>fetchBookProfile\<close> produces.
\<close>

theorem updateBook_missing_book:
  "p_id (params missing_request) \<notin> b_id ` set (Book example_db)
   \<and> fst (updateBook missing_request example_db) = Next TypeError
   \<and> \<not> fails_with NotFound (fst (updateBook missing_request example_db))
   \<and> Book (snd (updateBook missing_request example_db)) = Book example_db"
proof -
  have h: "p_id (params missing_request) \<notin> b_id ` set (Book example_db)"
    by (simp add: missing_request_def example_db_def)
  show ?thesis
    unfolding updateBook_absent [OF h] using h
    by (simp add: fails_with_def NotFound_def issue_def)
qed

text \<open>
  C9. \<^verbatim>\<open>updateBook\<close> on the identifier of a book in the collection answers with this
  identifier and leaves, at every position of the collection, the identifier and the
  ISBN as they were; the book then fetched under the identifier has the title and the
  author of the request body.
\<close>

theorem updateBook_keeps_ISBN:
  assumes "p_id (params req) \<in> b_id ` set (Book s)"
  shows "fst (updateBook req s)
           = Res 200 ''book updated successfully'' (PBook (p_id (params req)))
       \<and> map b_id (Book (snd (updateBook req s))) = map b_id (Book s)
       \<and> map b_ISBN (Book (snd (updateBook req s))) = map b_ISBN (Book s)
       \<and> (\<exists>b'. fst (Book_findById (p_id (params req)) (snd (updateBook req s))) = Some b'
               \<and> b_title b' = title (body req) \<and> b_author b' = author (body req))"
proof -
  from find_of_member [OF assms] obtain old where
    old: "b_id old = p_id (params req)"
      "find (\<lambda>y. b_id y = p_id (params req)) (Book s) = Some old"
    by blast
  define b' where
    "b' = old\<lparr>b_title := title (body req), b_author := author (body req),
               b_updatedAt := clock s\<rparr>"
  have same: "b_id b' = b_id old" "b_ISBN b' = b_ISBN old"
    unfolding b'_def by simp_all
  have id': "b_id b' = p_id (params req)"
    using same(1) old(1) by simp
  have coll: "Book (snd (updateBook req s))
                = updateOne (\<lambda>y. b_id y = p_id (params req)) b' (Book s)"
    unfolding updateBook_run [OF old(2)] b'_def
    using old(1) by (simp add: Book_save_collection issue_def)
  have answer: "fst (updateBook req s)
                  = Res 200 ''book updated successfully'' (PBook (p_id (params req)))"
    unfolding updateBook_run [OF old(2)] using old(1) by simp
  have ids: "map b_id (Book (snd (updateBook req s))) = map b_id (Book s)"
    unfolding coll by (rule map_updateOne [OF old(2) same(1)])
  have isbns: "map b_ISBN (Book (snd (updateBook req s))) = map b_ISBN (Book s)"
    unfolding coll by (rule map_updateOne [OF old(2) same(2)])
  have "fst (Book_findById (p_id (params req)) (snd (updateBook req s))) = Some b'"
    unfolding Book_findById_def coll using find_updateOne [OF old(2) id'] by simp
  moreover have "b_title b' = title (body req)" "b_author b' = author (body req)"
    unfolding b'_def by simp_all
  ultimately have fetched:
    "\<exists>b'. fst (Book_findById (p_id (params req)) (snd (updateBook req s))) = Some b'
        \<and> b_title b' = title (body req) \<and> b_author b' = author (body req)"
    by blast
  from answer ids isbns fetched show ?thesis
    by blast
qed

theorem updateBook_keeps_ISBN_witness:
  "p_id (params example_request) \<in> b_id ` set (Book example_db)
   \<and> ISBN (body example_request) = Some ''A2''
   \<and> map b_ISBN (Book (snd (updateBook example_request example_db)))
       = [Some ''A1'', Some ''A2'']
   \<and> map b_id (Book (snd (updateBook example_request example_db))) = [1, 2]"
proof -
  have h: "p_id (params example_request) \<in> b_id ` set (Book example_db)"
    by (simp add: example_request_def example_db_def)
  have b: "ISBN (body example_request) = Some ''A2''"
    by (simp add: example_request_def)
  have before: "map b_ISBN (Book example_db) = [Some ''A1'', Some ''A2'']"
    "map b_id (Book example_db) = [1, 2]"
    by (simp_all add: example_db_def)
  from h b before updateBook_keeps_ISBN [OF h] show ?thesis
    by simp
qed

text \<open>
  C10. \<^verbatim>\<open>updateBook\<close> does not read the moderator flag: setting the flag of the caller
  to any value changes neither the outcome nor the datastore, and the outcome is never
  a 403 error. So every caller overwrites: when the identifier of the request is that of
  a book in the collection, the answer is the 200 response with this identifier, and
  the book stored under it afterwards has the title and the author of the request body
  and the ISBN it had. \<^verbatim>\<open>addBook\<close>, on the same request with the flag cleared, fails with
  the 403 error and leaves the collection of books as it was.
\<close>

theorem updateBook_has_no_authorization_check:
  "updateBook (req\<lparr>user := (user req)\<lparr>isModerator := m\<rparr>\<rparr>) s = updateBook req s
   \<and> \<not> fails_with Forbidden (fst (updateBook req s))
   \<and> (p_id (params req) \<in> b_id ` set (Book s) \<longrightarrow>
        fst (updateBook req s)
          = Res 200 ''book updated successfully'' (PBook (p_id (params req)))
      \<and> (\<exists>old b'.
            find (\<lambda>b. b_id b = p_id (params req)) (Book s) = Some old
          \<and> find (\<lambda>b. b_id b = p_id (params req)) (Book (snd (updateBook req s))) = Some b'
          \<and> b_title b' = title (body req)
          \<and> b_author b' = author (body req)
          \<and> b_ISBN b' = b_ISBN old))
   \<and> fails_with Forbidden (fst (addBook (req\<lparr>user := (user req)\<lparr>isModerator := False\<rparr>\<rparr>) s))
   \<and> Book (snd (addBook (req\<lparr>user := (user req)\<lparr>isModerator := False\<rparr>\<rparr>) s)) = Book s"
proof -
  have same: "updateBook (req\<lparr>user := (user req)\<lparr>isModerator := m\<rparr>\<rparr>) s = updateBook req s"
    by (simp add: updateBook_def Book_findById_def split: option.split)
  have never: "\<not> fails_with Forbidden (fst (updateBook req s))"
  proof (cases "p_id (params req) \<in> b_id ` set (Book s)")
    case True
    from find_of_member [OF True] obtain old where
      old: "find (\<lambda>y. b_id y = p_id (params req)) (Book s) = Some old"
      by blast
    show ?thesis
      unfolding updateBook_run [OF old] by (simp add: fails_with_def)
  next
    case False
    show ?thesis
      unfolding updateBook_absent [OF False] by (simp add: fails_with_def Forbidden_def)
  qed
  have overwrite:
    "fst (updateBook req s)
       = Res 200 ''book updated successfully'' (PBook (p_id (params req)))
     \<and> (\<exists>old b'.
           find (\<lambda>b. b_id b = p_id (params req)) (Book s) = Some old
         \<and> find (\<lambda>b. b_id b = p_id (params req)) (Book (snd (updateBook req s))) = Some b'
         \<and> b_title b' = title (body req)
         \<and> b_author b' = author (body req)
         \<and> b_ISBN b' = b_ISBN old)"
    if existing: "p_id (params req) \<in> b_id ` set (Book s)"
  proof -
    from find_of_member [OF existing] obtain old where
      old: "b_id old = p_id (params req)"
        "find (\<lambda>y. b_id y = p_id (params req)) (Book s) = Some old"
      by blast
    define b' where
      "b' = old\<lparr>b_title := title (body req), b_author := author (body req),
                 b_updatedAt := clock s\<rparr>"
    have id': "b_id b' = p_id (params req)"
      unfolding b'_def using old(1) by simp
    have coll: "Book (snd (updateBook req s))
                  = updateOne (\<lambda>y. b_id y = p_id (params req)) b' (Book s)"
      unfolding updateBook_run [OF old(2)] b'_def
      using old(1) by (simp add: Book_save_collection issue_def)
    have answer: "fst (updateBook req s)
                    = Res 200 ''book updated successfully'' (PBook (p_id (params req)))"
      unfolding updateBook_run [OF old(2)] using old(1) by simp
    have stored: "find (\<lambda>b. b_id b = p_id (params req)) (Book (snd (updateBook req s)))
                    = Some b'"
      unfolding coll by (rule find_updateOne [OF old(2) id'])
    have fields: "b_title b' = title (body req)" "b_author b' = author (body req)"
      "b_ISBN b' = b_ISBN old"
      unfolding b'_def by simp_all
    from answer old(2) stored fields show ?thesis
      by blast
  qed
  have gate: "fails_with Forbidden
                (fst (addBook (req\<lparr>user := (user req)\<lparr>isModerator := False\<rparr>\<rparr>) s))"
    by (simp add: addBook_def fails_with_def Forbidden_def)
  have closed: "Book (snd (addBook (req\<lparr>user := (user req)\<lparr>isModerator := False\<rparr>\<rparr>) s))
                  = Book s"
    by (simp add: addBook_def)
  from same never overwrite gate closed show ?thesis
    by blast
qed

theorem updateBook_has_no_authorization_check_witness:
  "\<not> isModerator (user example_request)
   \<and> p_id (params example_request) \<in> b_id ` set (Book example_db)
   \<and> map b_title (filter (\<lambda>b. b_id b = 1) (Book example_db)) = [Some ''Emma'']
   \<and> map b_author (filter (\<lambda>b. b_id b = 1) (Book example_db)) = [Some ''Austen'']
   \<and> updateBook moderator_request example_db = updateBook example_request example_db
   \<and> fst (updateBook example_request example_db)
       = Res 200 ''book updated successfully'' (PBook 1)
   \<and> (\<exists>b'. find (\<lambda>b. b_id b = 1) (Book (snd (updateBook example_request example_db)))
               = Some b'
           \<and> b_title b' = Some ''Persuasion'' \<and> b_author b' = None
           \<and> b_ISBN b' = Some ''A1'')
   \<and> fails_with Forbidden (fst (addBook example_request example_db))
   \<and> Book (snd (addBook example_request example_db)) = Book example_db"
proof -
  have m: "example_request\<lparr>user := (user example_request)\<lparr>isModerator := True\<rparr>\<rparr>
             = moderator_request"
    "example_request\<lparr>user := (user example_request)\<lparr>isModerator := False\<rparr>\<rparr>
             = example_request"
    by (simp_all add: moderator_request_def example_request_def)
  have n: "\<not> isModerator (user example_request)"
    by (simp add: example_request_def)
  have r: "p_id (params example_request) = 1" "title (body example_request) = Some ''Persuasion''"
    "author (body example_request) = None"
    by (simp_all add: example_request_def)
  have h: "p_id (params example_request) \<in> b_id ` set (Book example_db)"
    by (simp add: example_request_def example_db_def)
  have before: "map b_title (filter (\<lambda>b. b_id b = 1) (Book example_db)) = [Some ''Emma'']"
    "map b_author (filter (\<lambda>b. b_id b = 1) (Book example_db)) = [Some ''Austen'']"
    by (simp_all add: example_db_def)
  have first: "\<And>old. find (\<lambda>b. b_id b = 1) (Book example_db) = Some old
                 \<Longrightarrow> b_ISBN old = Some ''A1''"
    by (auto simp add: example_db_def)
  note t = updateBook_has_no_authorization_check
             [where req = example_request and m = True and s = example_db]
  from t h r have answer:
    "fst (updateBook example_request example_db)
       = Res 200 ''book updated successfully'' (PBook 1)"
    by simp
  from t h r obtain old b' where
    "find (\<lambda>b. b_id b = 1) (Book example_db) = Some old"
    "find (\<lambda>b. b_id b = 1) (Book (snd (updateBook example_request example_db))) = Some b'"
    "b_title b' = Some ''Persuasion''" "b_author b' = None" "b_ISBN b' = b_ISBN old"
    by auto
  with first have stored:
    "\<exists>b'. find (\<lambda>b. b_id b = 1) (Book (snd (updateBook example_request example_db)))
            = Some b'
        \<and> b_title b' = Some ''Persuasion'' \<and> b_author b' = None
        \<and> b_ISBN b' = Some ''A1''"
    by auto
  from t m have rest:
    "updateBook moderator_request example_db = updateBook example_request example_db"
    "fails_with Forbidden (fst (addBook example_request example_db))"
    "Book (snd (addBook example_request example_db)) = Book example_db"
    by simp_all
  from n h before answer stored rest show ?thesis
    by blast
qed

section \<open>Searching\<close>




section \<open>Moderator-only listings\<close>

text \<open>
  C7. A caller without the moderator capability gets the 403 error from each of
  \<^verbatim>\<open>getAllBookings\<close>, \<^verbatim>\<open>getBookingsWithStatus\<close> and \<^verbatim>\<open>getAllBookingsForBook\<close>, and the
  datastore is as it was: no collection has changed and no operation has been issued.
\<close>

theorem listings_forbidden_for_non_moderator:
  assumes "\<not> isModerator (user req)"
  shows "fails_with Forbidden (fst (getAllBookings req s)) \<and> snd (getAllBookings req s) = s
       \<and> fails_with Forbidden (fst (getBookingsWithStatus req s))
       \<and> snd (getBookingsWithStatus req s) = s
       \<and> fails_with Forbidden (fst (getAllBookingsForBook req s))
       \<and> snd (getAllBookingsForBook req s) = s"
  using assms
  by (simp add: getAllBookings_def getBookingsWithStatus_def getAllBookingsForBook_def
      Forbidden_def fails_with_def)

theorem listings_forbidden_witness:
  "\<not> isModerator (user example_request)
   \<and> fails_with Forbidden (fst (getAllBookings example_request example_db))
   \<and> calls (snd (getAllBookings example_request example_db)) = []
   \<and> fails_with Forbidden (fst (getBookingsWithStatus example_request example_db))
   \<and> calls (snd (getBookingsWithStatus example_request example_db)) = []
   \<and> fails_with Forbidden (fst (getAllBookingsForBook example_request example_db))
   \<and> calls (snd (getAllBookingsForBook example_request example_db)) = []"
proof -
  have h: "\<not> isModerator (user example_request)"
    by (simp add: example_request_def)
  have c: "calls example_db = []"
    by (simp add: example_db_def)
  show ?thesis
    using h c listings_forbidden_for_non_moderator [OF h, of example_db] by simp
qed

section \<open>Creating and updating bookings\<close>

text \<open>
  C5. For every request, \<^verbatim>\<open>addBooking\<close> appends one booking with a new identifier to the
  collection and answers with that identifier; the booking belongs to the caller, is
  for the book and the quantity of the request, and its status is \<^verbatim>\<open>pending\<close>. A
  \<^verbatim>\<open>status\<close> in the request body changes nothing, and \<^verbatim>\<open>getBookingsByUser\<close> for the same
  caller then lists the new booking.
\<close>

theorem addBooking_owned_and_pending:
  "\<exists>nb. Booking (snd (addBooking req s)) = Booking s @ [nb]
       \<and> bk_id nb \<notin> bk_id ` set (Booking s)
       \<and> fst (addBooking req s)
           = Res 200 ''successfully completed booking'' (PBooking (bk_id nb))
       \<and> bk_user_id nb = u_id (user req)
       \<and> bk_status nb = Some ''pending''
       \<and> bk_book_id nb = p_id (params req)
       \<and> bk_quantity nb = quantity (body req)
       \<and> addBooking (req\<lparr>body := (body req)\<lparr>status := st\<rparr>\<rparr>) s = addBooking req s
       \<and> (\<exists>bs. fst (getBookingsByUser req (snd (addBooking req s)))
                  = Res 200 ''succesfully retrieved user bookings'' (PBookings bs)
              \<and> nb \<in> set bs)"
proof -
  define nb where
    "nb = \<lparr>bk_id = fresh (map bk_id (Booking s)), bk_user_id = u_id (user req),
            bk_book_id = p_id (params req), bk_quantity = quantity (body req),
            bk_status = Some ''pending'', bk_createdAt = clock s, bk_updatedAt = clock s\<rparr>"
  have stored: "Booking (snd (addBooking req s)) = Booking s @ [nb]"
    unfolding addBooking_run nb_def by (simp add: Booking_create_appends)
  have new: "bk_id nb \<notin> bk_id ` set (Booking s)"
    unfolding nb_def by (simp add: fresh_is_new)
  have answer: "fst (addBooking req s)
                  = Res 200 ''successfully completed booking'' (PBooking (bk_id nb))"
    unfolding addBooking_run nb_def by simp
  have fields: "bk_user_id nb = u_id (user req)" "bk_status nb = Some ''pending''"
    "bk_book_id nb = p_id (params req)" "bk_quantity nb = quantity (body req)"
    unfolding nb_def by simp_all
  have ignored: "addBooking (req\<lparr>body := (body req)\<lparr>status := st\<rparr>\<rparr>) s = addBooking req s"
    unfolding addBooking_run by simp
  have "nb \<in> set (fst (Booking_find (\<lambda>b. bk_user_id b = u_id (user req))
                          (snd (addBooking req s))))"
    unfolding Booking_find_set using stored fields(1) by simp
  then have listed: "\<exists>bs. fst (getBookingsByUser req (snd (addBooking req s)))
                  = Res 200 ''succesfully retrieved user bookings'' (PBookings bs)
              \<and> nb \<in> set bs"
    unfolding getBookingsByUser_lists by blast
  from stored new answer fields ignored listed show ?thesis
    by blast
qed

theorem addBooking_owned_and_pending_witness:
  "status (body example_request) = Some ''approved''
   \<and> map bk_status (Booking (snd (addBooking example_request example_db)))
       = [Some ''rejected'', Some ''pending'']
   \<and> map bk_user_id (Booking (snd (addBooking example_request example_db))) = [4, 7]"
proof -
  from addBooking_owned_and_pending [of example_request example_db] obtain nb where
    "Booking (snd (addBooking example_request example_db)) = Booking example_db @ [nb]"
    "bk_user_id nb = u_id (user example_request)" "bk_status nb = Some ''pending''"
    by blast
  then show ?thesis
    by (simp add: example_db_def example_request_def)
qed

text \<open>
  C2. \<^verbatim>\<open>updateBooking\<close> on an identifier that no booking has: the sample request for
  identifier 9. The booking collection is as it was, but nothing is handed to \<^verbatim>\<open>next\<close>:
  the \<open>TypeError\<close> of the assignment to \<^verbatim>\<open>null\<close> rejects a promise without a handler,
  where the controller's header documents a 404 answer.
\<close>

theorem updateBooking_missing_booking:
  "p_id (params missing_request) \<notin> bk_id ` set (Booking example_db)
   \<and> fst (updateBooking missing_request example_db) = Uncaught TypeError
   \<and> \<not> fails_with NotFound (fst (updateBooking missing_request example_db))
   \<and> Booking (snd (updateBooking missing_request example_db)) = Booking example_db"
proof -
  have h: "p_id (params missing_request) \<notin> bk_id ` set (Booking example_db)"
    by (simp add: missing_request_def example_db_def)
  show ?thesis
    unfolding updateBooking_absent [OF h] using h
    by (simp add: fails_with_def issue_def)
qed

text \<open>
  C8. \<^verbatim>\<open>updateBooking\<close> on the identifier of a booking in the collection answers with
  this identifier, and the booking then fetched under it has exactly the quantity and
  the status of the request body, absent values included; its identifier, user and
  book are those of the booking found.
\<close>

theorem updateBooking_overwrites:
  assumes "p_id (params req) \<in> bk_id ` set (Booking s)"
  shows "\<exists>old \<in> set (Booking s). \<exists>b'.
           bk_id old = p_id (params req)
         \<and> fst (updateBooking req s)
             = Res 200 ''successfully updated booking'' (PBooking (p_id (params req)))
         \<and> fst (Booking_findById (p_id (params req)) (snd (updateBooking req s))) = Some b'
         \<and> bk_quantity b' = quantity (body req)
         \<and> bk_status b' = status (body req)
         \<and> bk_id b' = bk_id old
         \<and> bk_user_id b' = bk_user_id old
         \<and> bk_book_id b' = bk_book_id old"
proof -
  from find_of_member [OF assms] obtain old where
    old: "old \<in> set (Booking s)" "bk_id old = p_id (params req)"
      "find (\<lambda>y. bk_id y = p_id (params req)) (Booking s) = Some old"
    by blast
  define b' where
    "b' = old\<lparr>bk_quantity := quantity (body req), bk_status := status (body req),
               bk_updatedAt := clock s\<rparr>"
  have id': "bk_id b' = p_id (params req)"
    unfolding b'_def using old(2) by simp
  have coll: "Booking (snd (updateBooking req s))
                = updateOne (\<lambda>y. bk_id y = p_id (params req)) b' (Booking s)"
    unfolding updateBooking_run [OF old(3)] b'_def
    using old(2) by (simp add: Booking_save_collection issue_def)
  have fetched: "fst (Booking_findById (p_id (params req)) (snd (updateBooking req s)))
                   = Some b'"
    unfolding Booking_findById_def coll using find_updateOne [OF old(3) id'] by simp
  have answer: "fst (updateBooking req s)
                  = Res 200 ''successfully updated booking'' (PBooking (p_id (params req)))"
    unfolding updateBooking_run [OF old(3)] using old(2) by simp
  have fields: "bk_quantity b' = quantity (body req)" "bk_status b' = status (body req)"
    "bk_id b' = bk_id old" "bk_user_id b' = bk_user_id old" "bk_book_id b' = bk_book_id old"
    unfolding b'_def by simp_all
  from old(1,2) answer fetched fields show ?thesis
    by blast
qed

theorem updateBooking_overwrites_witness:
  "p_id (params example_request) \<in> bk_id ` set (Booking example_db)
   \<and> (\<exists>b'. fst (Booking_findById 1 (snd (updateBooking example_request example_db)))
               = Some b'
           \<and> bk_quantity b' = Some 5 \<and> bk_status b' = Some ''approved'')"
proof -
  have h: "p_id (params example_request) \<in> bk_id ` set (Booking example_db)"
    by (simp add: example_request_def example_db_def)
  have r: "p_id (params example_request) = 1" "quantity (body example_request) = Some 5"
    "status (body example_request) = Some ''approved''"
    by (simp_all add: example_request_def)
  from updateBooking_overwrites [OF h] obtain b' where
    "fst (Booking_findById (p_id (params example_request))
            (snd (updateBooking example_request example_db))) = Some b'"
    "bk_quantity b' = quantity (body example_request)"
    "bk_status b' = status (body example_request)"
    by blast
  with h r show ?thesis by simp
qed

end
